theory Spec2Isabelle
  imports Main
begin

section \<open>JavaScript values\<close>

text \<open>
  The two files \<^verbatim>\<open>assets/dashExtensions_default.js\<close> (the flat variant) and
  \<^verbatim>\<open>unnamed/part_000\<close> (the cluster-colour variant) each register three callbacks
  \<^verbatim>\<open>function0\<close>, \<^verbatim>\<open>function1\<close>, \<^verbatim>\<open>function2\<close> under
  \<^verbatim>\<open>window.dashExtensions.default\<close>. They read a GeoJSON feature, so the values they
  meet are the ones JSON can carry, and \<^verbatim>\<open>undefined\<close> for a missing property.

  A number is written as a decimal \<open>Dec m e\<close>, standing for \<open>m * 10^e\<close>, the way a
  JSON or JavaScript literal denotes it. Binary rounding is not modelled, so the model is
  exact for the numbers that a double prints back unchanged (up to 15 significant digits).
  A string is the list of its UTF-8 bytes. An object is the list of its own properties (the
  first binding of a key counts); its prototype is \<^verbatim>\<open>Object.prototype\<close>. Symbols, BigInts,
  functions, getters and proxies are outside the model, and so is the registration of the
  callbacks itself (the \<^verbatim>\<open>Object.assign\<close> into \<^verbatim>\<open>window.dashExtensions\<close>).
\<close>

datatype jsnum = Dec int int | NaN | PosInf | NegInf

datatype jsval =
    Undefined
  | Null
  | Bool bool
  | Num jsnum
  | Str string
  | Arr "jsval list"
  | Obj "(string \<times> jsval) list"

text \<open>Every failure these callbacks can run into is a \<^verbatim>\<open>TypeError\<close>.\<close>

datatype error = TypeError

text \<open>
  A value held by a style object is a data value, or a member that an object literal inherits
  from \<^verbatim>\<open>Object.prototype\<close> (a built-in function, or for \<^verbatim>\<open>__proto__\<close> the prototype
  itself), kept by its name.
\<close>

datatype slot = Val jsval | Inherited string

type_synonym style = "(string \<times> slot) list"

text \<open>
  The map layer is the host's object. All the callbacks do with it is call
  \<^verbatim>\<open>layer.bindTooltip(text, options)\<close>, so a layer is the list of the calls it has
  received, oldest first.
\<close>

datatype layer = Layer "(string \<times> jsval) list"

definition bindTooltip :: "layer \<Rightarrow> string \<Rightarrow> jsval \<Rightarrow> layer" where
  "bindTooltip l text options = (case l of Layer calls \<Rightarrow> Layer (calls @ [(text, options)]))"

section \<open>The operations of the language that the callbacks use\<close>

subsection \<open>Truthiness\<close>

text \<open>\<^verbatim>\<open>ToBoolean\<close>: the falsy values are \<^verbatim>\<open>undefined\<close>, \<^verbatim>\<open>null\<close>, \<^verbatim>\<open>false\<close>, zero,
  \<^verbatim>\<open>NaN\<close> and the empty string.\<close>

fun truthy :: "jsval \<Rightarrow> bool" where
  "truthy Undefined = False"
| "truthy Null = False"
| "truthy (Bool b) = b"
| "truthy (Num (Dec m e)) = (m \<noteq> 0)"
| "truthy (Num NaN) = False"
| "truthy (Num PosInf) = True"
| "truthy (Num NegInf) = True"
| "truthy (Str s) = (s \<noteq> [])"
| "truthy (Arr xs) = True"
| "truthy (Obj ps) = True"

fun truthy_slot :: "slot \<Rightarrow> bool" where
  "truthy_slot (Val v) = truthy v"
| "truthy_slot (Inherited k) = True"

text \<open>The operator \<^verbatim>\<open>a || b\<close>: the left operand when it is truthy, the right one otherwise.\<close>

definition lor :: "slot \<Rightarrow> slot \<Rightarrow> slot" where
  "lor a b = (if truthy_slot a then a else b)"

subsection \<open>Kinds of values\<close>

text \<open>The primitive values: everything but arrays and objects.\<close>

fun primitive :: "jsval \<Rightarrow> bool" where
  "primitive (Arr xs) = False"
| "primitive (Obj ps) = False"
| "primitive v = True"

text \<open>The operator \<^verbatim>\<open>typeof\<close>.\<close>

fun typeof :: "slot \<Rightarrow> string" where
  "typeof (Val Undefined) = ''undefined''"
| "typeof (Val Null) = ''object''"
| "typeof (Val (Bool b)) = ''boolean''"
| "typeof (Val (Num x)) = ''number''"
| "typeof (Val (Str s)) = ''string''"
| "typeof (Val (Arr xs)) = ''object''"
| "typeof (Val (Obj ps)) = ''object''"
| "typeof (Inherited k) = (if k = ''__proto__'' then ''object'' else ''function'')"

text \<open>The fields of a style object, in order, each with the \<^verbatim>\<open>typeof\<close> of its value.\<close>

definition field_types :: "style \<Rightarrow> (string \<times> string) list" where
  "field_types st = map (\<lambda>(k, v). (k, typeof v)) st"

subsection \<open>Reading a named property\<close>

text \<open>
  The property names the callbacks read with the dot notation. None of them is defined on a
  built-in prototype, so reading one from a boolean, a number, a string or an array gives
  \<^verbatim>\<open>undefined\<close>, and reading one from an object looks at its own properties only. Reading a
  property of \<^verbatim>\<open>undefined\<close> or \<^verbatim>\<open>null\<close> throws.
\<close>

datatype name = Properties | FillColor | Cluster | Kabkot | Cluster_label

fun name_key :: "name \<Rightarrow> string" where
  "name_key Properties = ''properties''"
| "name_key FillColor = ''fillColor''"
| "name_key Cluster = ''cluster''"
| "name_key Kabkot = ''kabkot''"
| "name_key Cluster_label = ''cluster_label''"

fun get :: "jsval \<Rightarrow> name \<Rightarrow> error + jsval" where
  "get Undefined k = Inl TypeError"
| "get Null k = Inl TypeError"
| "get (Obj ps) k = Inr (case map_of ps (name_key k) of None \<Rightarrow> Undefined | Some v \<Rightarrow> v)"
| "get v k = Inr Undefined"

subsection \<open>Conversion to a string\<close>

text \<open>The decimal digits of a natural number, most significant first.\<close>

fun digits :: "nat \<Rightarrow> nat list" where
  "digits n = (if n < 10 then [n] else digits (n div 10) @ [n mod 10])"

declare digits.simps [simp del]

definition digit_char :: "nat \<Rightarrow> char" where
  "digit_char d = ''0123456789'' ! d"

text \<open>
  \<^verbatim>\<open>Number::toString\<close> in radix 10, from the digits \<open>s\<close> of the number without
  trailing zeros and the position \<open>n\<close> of the decimal point, counted from the first digit.
  With \<open>k\<close> the number of digits, the number is printed plainly when \<open>-5 \<le> n \<le> 21\<close>
  and with an exponent otherwise.
\<close>

definition format_decimal :: "nat list \<Rightarrow> int \<Rightarrow> string" where
  "format_decimal s n =
     (let k = int (length s) in
      if - 5 \<le> n \<and> n \<le> 21 then
        (if k \<le> n then map digit_char s @ replicate (nat (n - k)) CHR ''0''
         else if 0 < n then
           map digit_char (take (nat n) s) @ ''.'' @ map digit_char (drop (nat n) s)
         else ''0.'' @ replicate (nat (- n)) CHR ''0'' @ map digit_char s)
      else
        (if k = 1 then map digit_char s
         else digit_char (hd s) # ''.'' @ map digit_char (tl s))
        @ ''e'' @ (if n - 1 < 0 then ''-'' else ''+'')
        @ map digit_char (digits (nat \<bar>n - 1\<bar>)))"

text \<open>A non-zero \<open>m * 10^e\<close> has the digits of \<open>\<bar>m\<bar>\<close>, and a minus sign when it is
  negative.\<close>

definition Number_toString :: "jsnum \<Rightarrow> string" where
  "Number_toString x =
     (case x of
        NaN \<Rightarrow> ''NaN''
      | PosInf \<Rightarrow> ''Infinity''
      | NegInf \<Rightarrow> ''-Infinity''
      | Dec m e \<Rightarrow>
          if m = 0 then ''0''
          else
            (let ds = digits (nat \<bar>m\<bar>);
                 s = rev (dropWhile (\<lambda>d. d = 0) (rev ds));
                 n = int (length ds) + e
             in (if m < 0 then ''-'' else '''') @ format_decimal s n))"

text \<open>
  \<^verbatim>\<open>ToString\<close>. A primitive has its usual spelling. An array is joined with commas, where
  \<^verbatim>\<open>undefined\<close> and \<^verbatim>\<open>null\<close> elements count as empty. An object goes through
  \<^verbatim>\<open>ToPrimitive\<close>: its inherited \<^verbatim>\<open>valueOf\<close> returns the object itself, and its
  \<^verbatim>\<open>toString\<close> is the inherited one, giving \<^verbatim>\<open>[object Object]\<close>, unless an own property
  of that name hides it; such a property is data, not a function, so no method is left to call
  and the conversion throws.
\<close>

fun ToString :: "jsval \<Rightarrow> error + string"
  and join :: "jsval list \<Rightarrow> error + string" where
  "ToString Undefined = Inr ''undefined''"
| "ToString Null = Inr ''null''"
| "ToString (Bool b) = Inr (if b then ''true'' else ''false'')"
| "ToString (Num x) = Inr (Number_toString x)"
| "ToString (Str s) = Inr s"
| "ToString (Arr xs) = join xs"
| "ToString (Obj ps) =
     (if map_of ps ''toString'' = None then Inr ''[object Object]'' else Inl TypeError)"
| "join [] = Inr ''''"
| "join (x # xs) =
     (case (if x = Undefined \<or> x = Null then Inr '''' else ToString x) of
        Inl err \<Rightarrow> Inl err
      | Inr s \<Rightarrow>
          if xs = [] then Inr s
          else (case join xs of Inl err \<Rightarrow> Inl err | Inr r \<Rightarrow> Inr (s @ '','' @ r)))"

text \<open>
  The operator \<^verbatim>\<open>a + b\<close> where one operand is a string: both operands are converted, the
  left one first, and concatenated; the result is a string. Every \<^verbatim>\<open>+\<close> of the callbacks
  has a string operand.
\<close>

definition plus_string :: "jsval \<Rightarrow> jsval \<Rightarrow> error + string" where
  "plus_string a b =
     (case ToString a of
        Inl err \<Rightarrow> Inl err
      | Inr s \<Rightarrow> (case ToString b of Inl err \<Rightarrow> Inl err | Inr t \<Rightarrow> Inr (s @ t)))"

text \<open>A value converts when \<^verbatim>\<open>ToString\<close> returns its spelling instead of throwing.\<close>

definition converts :: "jsval \<Rightarrow> bool" where
  "converts v = (case ToString v of Inl err \<Rightarrow> False | Inr s \<Rightarrow> True)"

subsection \<open>Reading a computed property of an object literal\<close>

text \<open>The members every object literal inherits from \<^verbatim>\<open>Object.prototype\<close>.\<close>

definition Object_prototype :: "string list" where
  "Object_prototype =
     [''constructor'', ''__defineGetter__'', ''__defineSetter__'', ''hasOwnProperty'',
      ''__lookupGetter__'', ''__lookupSetter__'', ''isPrototypeOf'', ''propertyIsEnumerable'',
      ''toString'', ''valueOf'', ''__proto__'', ''toLocaleString'']"

text \<open>
  \<^verbatim>\<open>o[v]\<close> for an object literal \<open>o\<close> with the own properties \<open>own\<close>: the key is
  \<open>v\<close> converted to a string; an own property wins, then an inherited member, and
  \<^verbatim>\<open>undefined\<close> is left.
\<close>

definition get_computed :: "(string \<times> jsval) list \<Rightarrow> jsval \<Rightarrow> error + slot" where
  "get_computed own v =
     (case ToString v of
        Inl err \<Rightarrow> Inl err
      | Inr key \<Rightarrow>
          Inr (case map_of own key of
                 Some x \<Rightarrow> Val x
               | None \<Rightarrow> if key \<in> set Object_prototype then Inherited key else Val Undefined))"

section \<open>The flat variant: \<^verbatim>\<open>assets/dashExtensions_default.js\<close>\<close>

definition function0_flat :: "jsval \<Rightarrow> jsval \<Rightarrow> error + style" where
  "function0_flat feature context =
     (case get feature Properties of
        Inl err \<Rightarrow> Inl err
      | Inr props \<Rightarrow>
          (case get props FillColor of
             Inl err \<Rightarrow> Inl err
           | Inr fc \<Rightarrow>
               Inr [(''color'', Val (Str ''#0f172a'')),
                    (''weight'', Val (Num (Dec 1 0))),
                    (''fillColor'', lor (Val fc) (Val (Str ''#9ca3af''))),
                    (''fillOpacity'', Val (Num (Dec 8 (- 1))))]))"

definition function1_flat :: "jsval \<Rightarrow> jsval \<Rightarrow> error + style" where
  "function1_flat feature context =
     Inr [(''weight'', Val (Num (Dec 3 0))),
          (''color'', Val (Str ''#e5e7eb'')),
          (''fillOpacity'', Val (Num (Dec 95 (- 2))))]"

text \<open>The separator of the tooltip text is a space, an en dash (U+2013, in UTF-8 the bytes
  E2 80 93) and a space.\<close>

definition en_dash :: string where
  "en_dash = [CHR 0xE2, CHR 0x80, CHR 0x93]"

definition function2_flat :: "jsval \<Rightarrow> layer \<Rightarrow> jsval \<Rightarrow> error + layer" where
  "function2_flat feature layer context =
     (case get feature Properties of
        Inl err \<Rightarrow> Inl err
      | Inr props \<Rightarrow>
     (case get props Kabkot of
        Inl err \<Rightarrow> Inl err
      | Inr kabkot \<Rightarrow>
     (case get feature Properties of
        Inl err \<Rightarrow> Inl err
      | Inr props' \<Rightarrow>
     (case get props' Cluster_label of
        Inl err \<Rightarrow> Inl err
      | Inr label \<Rightarrow>
     (case plus_string kabkot (Str ('' '' @ en_dash @ '' '')) of
        Inl err \<Rightarrow> Inl err
      | Inr left \<Rightarrow>
     (case plus_string (Str left) label of
        Inl err \<Rightarrow> Inl err
      | Inr text \<Rightarrow> Inr (bindTooltip layer text (Obj [(''sticky'', Bool True)]))))))))"

section \<open>The cluster-colour variant: \<^verbatim>\<open>unnamed/part_000\<close>\<close>

definition function0_cluster :: "jsval \<Rightarrow> jsval \<Rightarrow> error + style" where
  "function0_cluster feature context =
     (case get feature Properties of
        Inl err \<Rightarrow> Inl err
      | Inr props \<Rightarrow>
          (case get props Cluster of
             Inl err \<Rightarrow> Inl err
           | Inr cl \<Rightarrow>
               (let colors = [(''0'', Str ''#1f77b4''), (''1'', Str ''#ff7f0e'')]
                in case get_computed colors cl of
                     Inl err \<Rightarrow> Inl err
                   | Inr c \<Rightarrow>
                       Inr [(''color'', Val (Str ''#ffffff'')),
                            (''weight'', Val (Num (Dec 1 0))),
                            (''fillColor'', lor c (Val (Str ''#808080''))),
                            (''fillOpacity'', Val (Num (Dec 7 (- 1))))])))"

definition function1_cluster :: "jsval \<Rightarrow> jsval \<Rightarrow> error + style" where
  "function1_cluster feature context =
     Inr [(''weight'', Val (Num (Dec 3 0))),
          (''color'', Val (Str ''#000000'')),
          (''fillOpacity'', Val (Num (Dec 9 (- 1))))]"

definition function2_cluster :: "jsval \<Rightarrow> layer \<Rightarrow> jsval \<Rightarrow> error + layer" where
  "function2_cluster feature layer context =
     (case get feature Properties of
        Inl err \<Rightarrow> Inl err
      | Inr props \<Rightarrow>
     (case get props Kabkot of
        Inl err \<Rightarrow> Inl err
      | Inr kabkot \<Rightarrow>
     (case get feature Properties of
        Inl err \<Rightarrow> Inl err
      | Inr props' \<Rightarrow>
     (case get props' Cluster_label of
        Inl err \<Rightarrow> Inl err
      | Inr label \<Rightarrow>
     (case plus_string kabkot (Str ('' '' @ en_dash @ '' '')) of
        Inl err \<Rightarrow> Inl err
      | Inr left \<Rightarrow>
     (case plus_string (Str left) label of
        Inl err \<Rightarrow> Inl err
      | Inr text \<Rightarrow> Inr (bindTooltip layer text (Obj [(''sticky'', Bool True)]))))))))"

section \<open>The conversions on examples\<close>

lemma digits_small: "n < 10 \<Longrightarrow> digits n = [n]"
  by (simp add: digits.simps)

lemma digits_step: "10 \<le> n \<Longrightarrow> digits n = digits (n div 10) @ [n mod 10]"
  by (subst digits.simps) simp

text \<open>Numbers print as a JavaScript engine prints them: plainly, or with an exponent from
  \<open>10^21\<close> on and below \<open>10^-6\<close>.\<close>

lemma Number_toString_examples:
  "Number_toString (Dec 8 (- 1)) = ''0.8''"
  "Number_toString (Dec 95 (- 2)) = ''0.95''"
  "Number_toString (Dec (- 15) 0) = ''-15''"
  "Number_toString (Dec 100 0) = ''100''"
  "Number_toString (Dec 123456 (- 3)) = ''123.456''"
  "Number_toString (Dec 1 (- 6)) = ''0.000001''"
  "Number_toString (Dec 1 (- 7)) = ''1e-7''"
  "Number_toString (Dec 1 21) = ''1e+21''"
  "Number_toString (Dec 1203 18) = ''1.203e+21''"
  by (simp_all add: Number_toString_def format_decimal_def digit_char_def digits_small digits_step)
    (simp_all add: eval_nat_numeral)

text \<open>Arrays are joined, plain objects print as \<^verbatim>\<open>[object Object]\<close>, and an object whose
  own \<^verbatim>\<open>toString\<close> is data cannot be converted.\<close>

lemma ToString_examples:
  "ToString (Arr [Num (Dec 1 0), Null, Arr [Str ''a'', Undefined], Bool True]) = Inr ''1,,a,,true''"
  "ToString (Obj [(''kabkot'', Str ''Kota A'')]) = Inr ''[object Object]''"
  "ToString (Obj [(''toString'', Str ''x'')]) = Inl TypeError"
  by (simp_all add: Number_toString_def format_decimal_def digit_char_def digits_small)

section \<open>Integers as property keys\<close>

text \<open>
  The key under which an integer looks a colour up is its decimal spelling. What the lookup
  needs of it: it is \<^verbatim>\<open>0\<close> or \<^verbatim>\<open>1\<close> only for these two integers, and it never names a
  member of \<^verbatim>\<open>Object.prototype\<close>, since it starts with a digit or a minus sign.
\<close>

lemma digits_not_Nil: "digits n \<noteq> []"
  by (induction n rule: digits.induct) (subst digits.simps, simp)

lemma hd_digits: "0 < n \<Longrightarrow> 0 < hd (digits n) \<and> hd (digits n) < 10"
proof (induction n rule: digits.induct)
  case (1 n)
  show ?case
  proof (cases "n < 10")
    case True
    with "1.prems" show ?thesis by (simp add: digits_small)
  next
    case False
    then have pos: "0 < n div 10" by simp
    have "digits n = digits (n div 10) @ [n mod 10]"
      using False by (subst digits.simps) simp
    then have "hd (digits n) = hd (digits (n div 10))"
      by (simp add: digits_not_Nil)
    with "1.IH" [OF False pos] show ?thesis by simp
  qed
qed

lemma digits_single: "digits n = [d] \<Longrightarrow> n = d"
proof (cases "n < 10")
  case True
  assume "digits n = [d]"
  with True show ?thesis by (simp add: digits_small)
next
  case False
  assume single: "digits n = [d]"
  have "digits n = digits (n div 10) @ [n mod 10]"
    using False by (subst digits.simps) simp
  with single have "digits (n div 10) = []" by simp
  then show ?thesis by (simp add: digits_not_Nil)
qed

lemma digit_char_cases: "d < 10 \<Longrightarrow> digit_char d \<in> set ''0123456789''"
  unfolding digit_char_def by (rule nth_mem) simp

lemma digit_char_eq:
  assumes "d < 10"
  shows "(digit_char d = CHR ''0'' \<longleftrightarrow> d = 0) \<and> (digit_char d = CHR ''1'' \<longleftrightarrow> d = 1)"
proof -
  from assms have "d = 0 \<or> d = 1 \<or> d = 2 \<or> d = 3 \<or> d = 4 \<or> d = 5 \<or> d = 6
      \<or> d = 7 \<or> d = 8 \<or> d = 9"
    by arith
  then show ?thesis by (elim disjE) (simp_all add: digit_char_def)
qed

text \<open>Taking the trailing zeros off a digit list that starts with a non-zero digit keeps its
  first digit, and putting the zeros back gives the list again.\<close>

lemma strip_zeros:
  fixes xs :: "nat list"
  assumes "xs \<noteq> []" and "hd xs \<noteq> 0"
  defines "s \<equiv> rev (dropWhile (\<lambda>d. d = 0) (rev xs))"
  shows "s \<noteq> []" and "hd s = hd xs" and "length s \<le> length xs"
    and "s @ replicate (length xs - length s) 0 = xs"
proof -
  define t where "t = rev (takeWhile (\<lambda>d. d = 0) (rev xs))"
  have parts: "s @ t = xs"
  proof -
    have "rev (rev t @ rev s) = xs"
      unfolding t_def s_def by (simp only: rev_rev_ident takeWhile_dropWhile_id)
    then show ?thesis by (simp only: rev_append rev_rev_ident)
  qed
  have zeros: "t = replicate (length t) 0"
    by (rule replicate_eqI) (auto simp: t_def dest: set_takeWhileD)
  show ne: "s \<noteq> []"
  proof
    assume "s = []"
    then have "dropWhile (\<lambda>d. d = 0) (rev xs) = []" by (simp add: s_def)
    then have "\<forall>d \<in> set (rev xs). d = 0" by (simp add: dropWhile_eq_Nil_conv)
    moreover have "hd xs \<in> set (rev xs)" using assms(1) by simp
    ultimately have "hd xs = 0" by (rule bspec)
    with assms(2) show False by simp
  qed
  have "hd (s @ t) = hd s" using ne by simp
  then show "hd s = hd xs" by (simp only: parts)
  have "length (s @ t) = length s + length t" by simp
  then have len: "length xs = length s + length t" by (simp only: parts)
  then show "length s \<le> length xs" by simp
  from len have "length xs - length s = length t" by simp
  then have "s @ replicate (length xs - length s) 0 = s @ t" using zeros by simp
  then show "s @ replicate (length xs - length s) 0 = xs" by (simp only: parts)
qed

text \<open>For an integer the decimal point stands after the last digit.\<close>

lemma format_decimal_int:
  assumes "length s \<le> N" and "s \<noteq> []"
  shows "format_decimal s (int N) =
      (if N \<le> 21 then map digit_char s @ replicate (N - length s) CHR ''0''
       else (if length s = 1 then map digit_char s
             else digit_char (hd s) # ''.'' @ map digit_char (tl s))
            @ ''e+'' @ map digit_char (digits (N - 1)))"
proof (cases "N \<le> 21")
  case True
  have "nat (int N - int (length s)) = N - length s" by simp
  with True assms(1) show ?thesis by (simp add: format_decimal_def Let_def)
next
  case False
  then have "nat \<bar>int N - 1\<bar> = N - 1" by simp
  with False show ?thesis by (simp add: format_decimal_def Let_def)
qed

text \<open>The spelling of a non-zero integer: an optional minus sign, a non-zero digit, and more
  characters unless the integer has one digit.\<close>

lemma Number_toString_int:
  assumes "n \<noteq> 0"
  shows "\<exists>d rest. 0 < d \<and> d < 10
           \<and> Number_toString (Dec n 0) = (if n < 0 then ''-'' else []) @ digit_char d # rest
           \<and> (rest = [] \<longrightarrow> \<bar>n\<bar> = int d)"
proof -
  define ds where "ds = digits (nat \<bar>n\<bar>)"
  define s where "s = rev (dropWhile (\<lambda>d. d = 0) (rev ds))"
  define d where "d = hd ds"
  have pos: "0 < nat \<bar>n\<bar>" using assms by simp
  have ds_ne: "ds \<noteq> []" by (simp add: ds_def digits_not_Nil)
  have d_rng: "0 < d" "d < 10" using hd_digits [OF pos] by (simp_all add: d_def ds_def)
  then have hd_nz: "hd ds \<noteq> 0" by (simp add: d_def)
  note st = strip_zeros [OF ds_ne hd_nz, folded s_def]
  have s_first: "s = d # tl s" using st(1,2) by (cases s) (simp_all add: d_def)
  have ds_first: "ds = d # tl ds" using ds_ne by (cases ds) (simp_all add: d_def)
  have "Number_toString (Dec n 0)
      = (if n < 0 then ''-'' else []) @ format_decimal s (int (length ds))"
    using assms by (simp add: Number_toString_def Let_def ds_def s_def)
  then have shape: "Number_toString (Dec n 0) = (if n < 0 then ''-'' else []) @
      (if length ds \<le> 21 then map digit_char s @ replicate (length ds - length s) CHR ''0''
       else (if length s = 1 then map digit_char s
             else digit_char (hd s) # ''.'' @ map digit_char (tl s))
            @ ''e+'' @ map digit_char (digits (length ds - 1)))"
    by (simp only: format_decimal_int [OF st(3) st(1)])
  show ?thesis
  proof (cases "length ds \<le> 21")
    case True
    have "map digit_char s @ replicate (length ds - length s) CHR ''0''
          = map digit_char (s @ replicate (length ds - length s) 0)"
      by (simp add: digit_char_def)
    also have "\<dots> = map digit_char ds" by (simp only: st(4))
    also have "\<dots> = digit_char d # map digit_char (tl ds)" by (subst ds_first) simp
    finally have plain: "Number_toString (Dec n 0)
        = (if n < 0 then ''-'' else []) @ digit_char d # map digit_char (tl ds)"
      using True shape by simp
    have "\<bar>n\<bar> = int d" if "map digit_char (tl ds) = []"
    proof -
      from that have "tl ds = []" by simp
      with ds_first have "digits (nat \<bar>n\<bar>) = [d]" by (simp add: ds_def)
      then have "nat \<bar>n\<bar> = d" by (rule digits_single)
      then show ?thesis by simp
    qed
    with d_rng plain show ?thesis by blast
  next
    case False
    have "\<exists>rest. rest \<noteq> [] \<and>
        (if length s = 1 then map digit_char s
         else digit_char (hd s) # ''.'' @ map digit_char (tl s))
        @ ''e+'' @ map digit_char (digits (length ds - 1)) = digit_char d # rest"
    proof (cases "length s = 1")
      case True
      then have "tl s = []" by (cases s) simp_all
      with s_first have "s = [d]" by simp
      then show ?thesis by simp
    next
      case False
      then show ?thesis using st(2) by (simp add: d_def)
    qed
    then obtain rest where "rest \<noteq> []"
      and "Number_toString (Dec n 0) = (if n < 0 then ''-'' else []) @ digit_char d # rest"
      using False shape by auto
    with d_rng show ?thesis by blast
  qed
qed

lemma int_key_zero: "Number_toString (Dec n 0) = ''0'' \<longleftrightarrow> n = 0"
proof (cases "n = 0")
  case True
  then show ?thesis by (simp add: Number_toString_def)
next
  case False
  from Number_toString_int [OF False] obtain d rest where d: "0 < d" "d < 10"
    and eq: "Number_toString (Dec n 0) = (if n < 0 then ''-'' else []) @ digit_char d # rest"
    by blast
  have "digit_char d \<noteq> CHR ''0''" using d digit_char_eq [of d] by simp
  with eq False show ?thesis by (simp split: if_splits)
qed

lemma int_key_one: "Number_toString (Dec n 0) = ''1'' \<longleftrightarrow> n = 1"
proof (cases "n = 0")
  case True
  then show ?thesis by (simp add: Number_toString_def)
next
  case False
  from Number_toString_int [OF False] obtain d rest where d: "0 < d" "d < 10"
    and eq: "Number_toString (Dec n 0) = (if n < 0 then ''-'' else []) @ digit_char d # rest"
    and single: "rest = [] \<longrightarrow> \<bar>n\<bar> = int d"
    by blast
  show ?thesis
  proof
    assume one: "Number_toString (Dec n 0) = ''1''"
    with eq have pos: "\<not> n < 0" and "digit_char d = CHR ''1''" and "rest = []"
      by (simp_all split: if_splits)
    with d digit_char_eq [of d] single have "\<bar>n\<bar> = 1" by simp
    with pos show "n = 1" by simp
  next
    assume "n = 1"
    then show "Number_toString (Dec n 0) = ''1''"
      by (simp add: Number_toString_def digits_small format_decimal_def digit_char_def)
  qed
qed

lemma int_key_not_inherited: "Number_toString (Dec n 0) \<notin> set Object_prototype"
proof (cases "n = 0")
  case True
  then show ?thesis by (simp add: Number_toString_def Object_prototype_def)
next
  case False
  from Number_toString_int [OF False] obtain d rest where d: "d < 10"
    and eq: "Number_toString (Dec n 0) = (if n < 0 then ''-'' else []) @ digit_char d # rest"
    by blast
  from d have "digit_char d \<in> set ''0123456789''" by (rule digit_char_cases)
  with eq show ?thesis by (auto simp: Object_prototype_def split: if_splits)
qed

text \<open>The colour lookup of the cluster-colour variant, at an integer and at a missing
  cluster.\<close>

lemma cluster_key_integer:
  "get_computed [(''0'', Str ''#1f77b4''), (''1'', Str ''#ff7f0e'')] (Num (Dec n 0))
     = Inr (if n = 0 then Val (Str ''#1f77b4'')
            else if n = 1 then Val (Str ''#ff7f0e'') else Val Undefined)"
proof -
  have "Number_toString (Dec n 0) \<noteq> ''0''" if "n \<noteq> 0"
    using that by (simp add: int_key_zero)
  moreover have "Number_toString (Dec n 0) \<noteq> ''1''" if "n \<noteq> 1"
    using that by (simp add: int_key_one)
  moreover have "Number_toString (Dec 0 0) = ''0''" by (simp add: int_key_zero)
  moreover have "Number_toString (Dec 1 0) = ''1''" by (simp add: int_key_one)
  ultimately show ?thesis
    by (simp add: get_computed_def int_key_not_inherited)
qed

lemma cluster_key_absent:
  "get_computed [(''0'', Str ''#1f77b4''), (''1'', Str ''#ff7f0e'')] Undefined
     = Inr (Val Undefined)"
  by (simp add: get_computed_def Object_prototype_def)

section \<open>Values that convert to a string\<close>

lemma converts_ToString: "converts v \<Longrightarrow> \<exists>s. ToString v = Inr s"
  by (simp add: converts_def split: sum.splits)

text \<open>Every primitive converts; so does a plain object without an own \<^verbatim>\<open>toString\<close>.\<close>

lemma primitive_converts: "primitive v \<Longrightarrow> converts v"
  by (cases v) (simp_all add: converts_def)

lemma plain_object_converts: "map_of ps ''toString'' = None \<Longrightarrow> converts (Obj ps)"
  by (simp add: converts_def)

text \<open>What a callback reads from the properties converts when the value stored there, if
  any, does: a missing property reads as \<^verbatim>\<open>undefined\<close>.\<close>

lemma read_converts:
  assumes "\<forall>v. map_of ps k = Some v \<longrightarrow> converts v"
  shows "\<exists>s. ToString (case map_of ps k of None \<Rightarrow> Undefined | Some v \<Rightarrow> v) = Inr s"
proof (cases "map_of ps k")
  case None
  then show ?thesis by simp
next
  case (Some v)
  with assms have "converts v" by simp
  then have "\<exists>s. ToString v = Inr s" by (rule converts_ToString)
  with Some show ?thesis by simp
qed

section \<open>Properties of the callbacks\<close>

text \<open>
  In what follows a feature is an object \<open>Obj fs\<close> whose \<^verbatim>\<open>properties\<close> member is an
  object \<open>Obj ps\<close>, and \<open>Layer calls\<close> is a layer that has received \<open>calls\<close> so far.
\<close>

subsection \<open>The tooltip text\<close>

text \<open>
  C1. When the properties hold the strings \<open>k\<close> under \<^verbatim>\<open>kabkot\<close> and \<open>l\<close> under
  \<^verbatim>\<open>cluster_label\<close>, \<^verbatim>\<open>function2\<close> of either variant succeeds and the layer has
  received exactly one more call of \<^verbatim>\<open>bindTooltip\<close>: its text is \<open>k\<close>, a space, an en
  dash, a space and \<open>l\<close>, and its options are \<^verbatim>\<open>{sticky: true}\<close>.
\<close>

theorem function2_binds_tooltip_text:
  assumes "map_of fs ''properties'' = Some (Obj ps)"
    and "map_of ps ''kabkot'' = Some (Str k)"
    and "map_of ps ''cluster_label'' = Some (Str l)"
  shows "function2_flat (Obj fs) (Layer calls) context
           = Inr (Layer (calls @ [(k @ '' '' @ en_dash @ '' '' @ l, Obj [(''sticky'', Bool True)])]))
       \<and> function2_cluster (Obj fs) (Layer calls) context
           = Inr (Layer (calls @ [(k @ '' '' @ en_dash @ '' '' @ l, Obj [(''sticky'', Bool True)])]))"
  using assms
  by (simp add: function2_flat_def function2_cluster_def plus_string_def bindTooltip_def)

text \<open>The example of the specification: \<^verbatim>\<open>Kota A\<close> and \<^verbatim>\<open>Cluster 1\<close>.\<close>

theorem function2_binds_tooltip_text_witness:
  "function2_flat
     (Obj [(''properties'', Obj [(''kabkot'', Str ''Kota A''), (''cluster_label'', Str ''Cluster 1'')])])
     (Layer []) Undefined
     = Inr (Layer [(''Kota A '' @ en_dash @ '' Cluster 1'', Obj [(''sticky'', Bool True)])])
   \<and> function2_cluster
     (Obj [(''properties'', Obj [(''kabkot'', Str ''Kota A''), (''cluster_label'', Str ''Cluster 1'')])])
     (Layer []) Undefined
     = Inr (Layer [(''Kota A '' @ en_dash @ '' Cluster 1'', Obj [(''sticky'', Bool True)])])"
proof -
  let ?ps = "[(''kabkot'', Str ''Kota A''), (''cluster_label'', Str ''Cluster 1'')]"
  have h1: "map_of [(''properties'', Obj ?ps)] ''properties'' = Some (Obj ?ps)" by simp
  have h2: "map_of ?ps ''kabkot'' = Some (Str ''Kota A'')" by simp
  have h3: "map_of ?ps ''cluster_label'' = Some (Str ''Cluster 1'')" by simp
  show ?thesis
    using function2_binds_tooltip_text [OF h1 h2 h3, of "[]" Undefined]
    by simp
qed

subsection \<open>The fill colour of the flat variant\<close>

text \<open>
  C2, amended. When the properties hold a truthy value under \<^verbatim>\<open>fillColor\<close> (for a string:
  a non-empty one), \<^verbatim>\<open>function0\<close> of the flat variant returns the style whose
  \<^verbatim>\<open>fillColor\<close> is that value.
\<close>

theorem function0_flat_keeps_truthy_fillColor:
  assumes "map_of fs ''properties'' = Some (Obj ps)"
    and "map_of ps ''fillColor'' = Some v"
    and "truthy v"
  shows "function0_flat (Obj fs) context
           = Inr [(''color'', Val (Str ''#0f172a'')),
                  (''weight'', Val (Num (Dec 1 0))),
                  (''fillColor'', Val v),
                  (''fillOpacity'', Val (Num (Dec 8 (- 1))))]"
  using assms by (simp add: function0_flat_def lor_def)

theorem function0_flat_keeps_truthy_fillColor_witness:
  "truthy (Str ''#ff0000'')
   \<and> function0_flat (Obj [(''properties'', Obj [(''fillColor'', Str ''#ff0000'')])]) Undefined
       = Inr [(''color'', Val (Str ''#0f172a'')),
              (''weight'', Val (Num (Dec 1 0))),
              (''fillColor'', Val (Str ''#ff0000'')),
              (''fillOpacity'', Val (Num (Dec 8 (- 1))))]"
proof -
  let ?ps = "[(''fillColor'', Str ''#ff0000'')]"
  have h1: "map_of [(''properties'', Obj ?ps)] ''properties'' = Some (Obj ?ps)" by simp
  have h2: "map_of ?ps ''fillColor'' = Some (Str ''#ff0000'')" by simp
  have h3: "truthy (Str ''#ff0000'')" by simp
  show ?thesis
    using h3 function0_flat_keeps_truthy_fillColor [OF h1 h2 h3, of Undefined]
    by simp
qed

text \<open>
  C2 as stated fails where the value is set but falsy: with \<^verbatim>\<open>fillColor: ''\<close> the style
  has the fallback colour, not the empty string.
\<close>

theorem function0_flat_empty_fillColor_counterexample:
  "map_of [(''fillColor'', Str [])] ''fillColor'' = Some (Str [])
   \<and> function0_flat (Obj [(''properties'', Obj [(''fillColor'', Str [])])]) Undefined
       = Inr [(''color'', Val (Str ''#0f172a'')),
              (''weight'', Val (Num (Dec 1 0))),
              (''fillColor'', Val (Str ''#9ca3af'')),
              (''fillOpacity'', Val (Num (Dec 8 (- 1))))]
   \<and> Val (Str ''#9ca3af'') \<noteq> Val (Str [])"
  by (simp add: function0_flat_def lor_def)

text \<open>
  C3. When the properties hold nothing under \<^verbatim>\<open>fillColor\<close>, \<^verbatim>\<open>function0\<close> of the flat
  variant returns the style whose \<^verbatim>\<open>fillColor\<close> is the fallback \<^verbatim>\<open>#9ca3af\<close>.
\<close>

theorem function0_flat_fallback_when_absent:
  assumes "map_of fs ''properties'' = Some (Obj ps)"
    and "map_of ps ''fillColor'' = None"
  shows "function0_flat (Obj fs) context
           = Inr [(''color'', Val (Str ''#0f172a'')),
                  (''weight'', Val (Num (Dec 1 0))),
                  (''fillColor'', Val (Str ''#9ca3af'')),
                  (''fillOpacity'', Val (Num (Dec 8 (- 1))))]"
  using assms by (simp add: function0_flat_def lor_def)

theorem function0_flat_fallback_when_absent_witness:
  "function0_flat (Obj [(''properties'', Obj [(''kabkot'', Str ''Kota A'')])]) Undefined
       = Inr [(''color'', Val (Str ''#0f172a'')),
              (''weight'', Val (Num (Dec 1 0))),
              (''fillColor'', Val (Str ''#9ca3af'')),
              (''fillOpacity'', Val (Num (Dec 8 (- 1))))]"
proof -
  let ?ps = "[(''kabkot'', Str ''Kota A'')]"
  have h1: "map_of [(''properties'', Obj ?ps)] ''properties'' = Some (Obj ?ps)" by simp
  have h2: "map_of ?ps ''fillColor'' = None" by simp
  show ?thesis
    using function0_flat_fallback_when_absent [OF h1 h2, of Undefined] by simp
qed

subsection \<open>The fields of the styles\<close>

text \<open>
  C4, amended. For a feature of the data model (\<^verbatim>\<open>fillColor\<close> a string or missing,
  \<^verbatim>\<open>cluster\<close> an integer or missing), the style of \<^verbatim>\<open>function0\<close> has, in either variant,
  exactly the four fields \<^verbatim>\<open>color\<close> (a string), \<^verbatim>\<open>weight\<close> (a number), \<^verbatim>\<open>fillColor\<close>
  (a string) and \<^verbatim>\<open>fillOpacity\<close> (a number); the style of \<^verbatim>\<open>function1\<close> has, in either
  variant, exactly the three fields \<^verbatim>\<open>weight\<close> (a number), \<^verbatim>\<open>color\<close> (a string) and
  \<^verbatim>\<open>fillOpacity\<close> (a number), and no \<^verbatim>\<open>fillColor\<close>.
\<close>

theorem style_fields_by_operation:
  assumes "map_of fs ''properties'' = Some (Obj ps)"
    and "map_of ps ''fillColor'' = map_option Str c"
    and "map_of ps ''cluster'' = map_option (\<lambda>n. Num (Dec n 0)) cl"
  shows "map_sum id field_types (function0_flat (Obj fs) context)
           = Inr [(''color'', ''string''), (''weight'', ''number''),
                  (''fillColor'', ''string''), (''fillOpacity'', ''number'')]
       \<and> map_sum id field_types (function0_cluster (Obj fs) context)
           = Inr [(''color'', ''string''), (''weight'', ''number''),
                  (''fillColor'', ''string''), (''fillOpacity'', ''number'')]
       \<and> map_sum id field_types (function1_flat (Obj fs) context)
           = Inr [(''weight'', ''number''), (''color'', ''string''), (''fillOpacity'', ''number'')]
       \<and> map_sum id field_types (function1_cluster (Obj fs) context)
           = Inr [(''weight'', ''number''), (''color'', ''string''), (''fillOpacity'', ''number'')]"
proof -
  have flat: "map_sum id field_types (function0_flat (Obj fs) context)
           = Inr [(''color'', ''string''), (''weight'', ''number''),
                  (''fillColor'', ''string''), (''fillOpacity'', ''number'')]"
    using assms(1,2) by (cases c) (simp_all add: function0_flat_def lor_def field_types_def)
  have clus: "map_sum id field_types (function0_cluster (Obj fs) context)
           = Inr [(''color'', ''string''), (''weight'', ''number''),
                  (''fillColor'', ''string''), (''fillOpacity'', ''number'')]"
    using assms(1,3)
    by (cases cl)
      (simp_all add: function0_cluster_def cluster_key_integer cluster_key_absent lor_def
        field_types_def)
  have hi: "map_sum id field_types (function1_flat (Obj fs) context)
           = Inr [(''weight'', ''number''), (''color'', ''string''), (''fillOpacity'', ''number'')]"
    "map_sum id field_types (function1_cluster (Obj fs) context)
           = Inr [(''weight'', ''number''), (''color'', ''string''), (''fillOpacity'', ''number'')]"
    by (simp_all add: function1_flat_def function1_cluster_def field_types_def)
  from flat clus hi show ?thesis by (intro conjI)
qed

theorem style_fields_by_operation_witness:
  "map_sum id field_types (function0_flat
       (Obj [(''properties'', Obj [(''fillColor'', Str ''#ff0000''), (''cluster'', Num (Dec 1 0))])])
       Undefined)
     = Inr [(''color'', ''string''), (''weight'', ''number''),
            (''fillColor'', ''string''), (''fillOpacity'', ''number'')]
   \<and> map_sum id field_types (function0_cluster
       (Obj [(''properties'', Obj [(''fillColor'', Str ''#ff0000''), (''cluster'', Num (Dec 1 0))])])
       Undefined)
     = Inr [(''color'', ''string''), (''weight'', ''number''),
            (''fillColor'', ''string''), (''fillOpacity'', ''number'')]
   \<and> map_sum id field_types (function1_flat
       (Obj [(''properties'', Obj [(''fillColor'', Str ''#ff0000''), (''cluster'', Num (Dec 1 0))])])
       Undefined)
     = Inr [(''weight'', ''number''), (''color'', ''string''), (''fillOpacity'', ''number'')]
   \<and> map_sum id field_types (function1_cluster
       (Obj [(''properties'', Obj [(''fillColor'', Str ''#ff0000''), (''cluster'', Num (Dec 1 0))])])
       Undefined)
     = Inr [(''weight'', ''number''), (''color'', ''string''), (''fillOpacity'', ''number'')]"
proof -
  let ?ps = "[(''fillColor'', Str ''#ff0000''), (''cluster'', Num (Dec 1 0))]"
  have h1: "map_of [(''properties'', Obj ?ps)] ''properties'' = Some (Obj ?ps)" by simp
  have h2: "map_of ?ps ''fillColor'' = map_option Str (Some ''#ff0000'')" by simp
  have h3: "map_of ?ps ''cluster'' = map_option (\<lambda>n. Num (Dec n 0)) (Some 1)" by simp
  show ?thesis
    using style_fields_by_operation [OF h1 h2 h3, of Undefined] by simp
qed

text \<open>
  C4 as stated fails for the highlight style: the object \<^verbatim>\<open>function1\<close> returns has no
  \<^verbatim>\<open>fillColor\<close> field, whatever the feature.
\<close>

theorem function1_omits_fillColor_counterexample:
  "function1_flat (Obj [(''properties'', Obj [(''fillColor'', Str ''#ff0000'')])]) Undefined
     = Inr [(''weight'', Val (Num (Dec 3 0))),
            (''color'', Val (Str ''#e5e7eb'')),
            (''fillOpacity'', Val (Num (Dec 95 (- 2))))]
   \<and> map_sum id (\<lambda>st. map_of st ''fillColor'')
         (function1_flat (Obj [(''properties'', Obj [(''fillColor'', Str ''#ff0000'')])]) Undefined)
       = Inr None"
  by (simp add: function1_flat_def)

subsection \<open>The highlight style\<close>

text \<open>
  C5. \<^verbatim>\<open>function1\<close> returns, in each variant, the same style for any two features and any
  two contexts: nothing of its input reaches its result.
\<close>

theorem function1_constant:
  "function1_flat feature context = function1_flat feature' context'
   \<and> function1_cluster feature context = function1_cluster feature' context'"
  by (simp add: function1_flat_def function1_cluster_def)

theorem function1_constant_witness:
  "function1_flat (Obj [(''properties'', Obj [(''fillColor'', Str ''#ff0000'')])]) Undefined
     = function1_flat Null (Num (Dec 7 0))
   \<and> function1_cluster (Obj [(''properties'', Obj [(''fillColor'', Str ''#ff0000'')])]) Undefined
     = function1_cluster Null (Num (Dec 7 0))"
  using function1_constant
    [of "Obj [(''properties'', Obj [(''fillColor'', Str ''#ff0000'')])]" Undefined
        Null "Num (Dec 7 0)"]
  by simp

subsection \<open>The colour of a cluster\<close>

text \<open>
  C6. When the properties hold the integer \<open>n\<close> under \<^verbatim>\<open>cluster\<close>, \<^verbatim>\<open>function0\<close> of the
  cluster-colour variant returns the style whose \<^verbatim>\<open>fillColor\<close> is \<^verbatim>\<open>#1f77b4\<close> for 0,
  \<^verbatim>\<open>#ff7f0e\<close> for 1 and the neutral \<^verbatim>\<open>#808080\<close> for every other integer.
\<close>

theorem function0_cluster_lookup:
  assumes "map_of fs ''properties'' = Some (Obj ps)"
    and "map_of ps ''cluster'' = Some (Num (Dec n 0))"
  shows "function0_cluster (Obj fs) context
           = Inr [(''color'', Val (Str ''#ffffff'')),
                  (''weight'', Val (Num (Dec 1 0))),
                  (''fillColor'',
                     Val (Str (if n = 0 then ''#1f77b4''
                               else if n = 1 then ''#ff7f0e'' else ''#808080''))),
                  (''fillOpacity'', Val (Num (Dec 7 (- 1))))]"
  using assms by (simp add: function0_cluster_def cluster_key_integer lor_def)

text \<open>The examples of the specification: cluster 1 and cluster 5.\<close>

theorem function0_cluster_lookup_witness:
  "function0_cluster (Obj [(''properties'', Obj [(''cluster'', Num (Dec 1 0))])]) Undefined
       = Inr [(''color'', Val (Str ''#ffffff'')),
              (''weight'', Val (Num (Dec 1 0))),
              (''fillColor'', Val (Str ''#ff7f0e'')),
              (''fillOpacity'', Val (Num (Dec 7 (- 1))))]
   \<and> function0_cluster (Obj [(''properties'', Obj [(''cluster'', Num (Dec 5 0))])]) Undefined
       = Inr [(''color'', Val (Str ''#ffffff'')),
              (''weight'', Val (Num (Dec 1 0))),
              (''fillColor'', Val (Str ''#808080'')),
              (''fillOpacity'', Val (Num (Dec 7 (- 1))))]"
proof -
  have h1: "map_of [(''properties'', Obj [(''cluster'', Num (Dec n 0))])] ''properties''
      = Some (Obj [(''cluster'', Num (Dec n 0))])" for n
    by simp
  have h2: "map_of [(''cluster'', Num (Dec n 0))] ''cluster'' = Some (Num (Dec n 0))" for n
    by simp
  show ?thesis
    using function0_cluster_lookup [OF h1 h2, of 1 Undefined]
      function0_cluster_lookup [OF h1 h2, of 5 Undefined]
    by simp
qed

text \<open>
  A key that is not an integer can name a member every object literal inherits. The lookup
  then yields that member, which is truthy, and the fallback is not taken.
\<close>

lemma function0_cluster_inherited_key:
  "function0_cluster (Obj [(''properties'', Obj [(''cluster'', Str ''toString'')])]) Undefined
     = Inr [(''color'', Val (Str ''#ffffff'')),
            (''weight'', Val (Num (Dec 1 0))),
            (''fillColor'', Inherited ''toString''),
            (''fillOpacity'', Val (Num (Dec 7 (- 1))))]"
  by (simp add: function0_cluster_def get_computed_def Object_prototype_def lor_def)

subsection \<open>Missing properties\<close>

text \<open>
  C7. When \<^verbatim>\<open>kabkot\<close> or \<^verbatim>\<open>cluster_label\<close> is missing from the properties (the other
  one a string, or missing too), \<^verbatim>\<open>function2\<close> of either variant still succeeds and binds
  one tooltip, whose text has \<^verbatim>\<open>undefined\<close> where the missing property would stand.
\<close>

theorem function2_missing_property_undefined:
  assumes "map_of fs ''properties'' = Some (Obj ps)"
    and "map_of ps ''kabkot'' = map_option Str k"
    and "map_of ps ''cluster_label'' = map_option Str l"
    and "k = None \<or> l = None"
  shows "function2_flat (Obj fs) (Layer calls) context
           = Inr (Layer (calls @
               [((case k of None \<Rightarrow> ''undefined'' | Some s \<Rightarrow> s) @ '' '' @ en_dash @ '' ''
                   @ (case l of None \<Rightarrow> ''undefined'' | Some s \<Rightarrow> s),
                 Obj [(''sticky'', Bool True)])]))
       \<and> function2_cluster (Obj fs) (Layer calls) context
           = Inr (Layer (calls @
               [((case k of None \<Rightarrow> ''undefined'' | Some s \<Rightarrow> s) @ '' '' @ en_dash @ '' ''
                   @ (case l of None \<Rightarrow> ''undefined'' | Some s \<Rightarrow> s),
                 Obj [(''sticky'', Bool True)])]))"
  using assms(1-3)
  by (cases k; cases l)
    (simp_all add: function2_flat_def function2_cluster_def plus_string_def bindTooltip_def)

theorem function2_missing_property_undefined_witness:
  "function2_flat (Obj [(''properties'', Obj [(''kabkot'', Str ''Kota A'')])]) (Layer []) Undefined
     = Inr (Layer [(''Kota A '' @ en_dash @ '' undefined'', Obj [(''sticky'', Bool True)])])
   \<and> function2_cluster (Obj [(''properties'', Obj [(''kabkot'', Str ''Kota A'')])]) (Layer []) Undefined
     = Inr (Layer [(''Kota A '' @ en_dash @ '' undefined'', Obj [(''sticky'', Bool True)])])
   \<and> function2_flat (Obj [(''properties'', Obj [])]) (Layer []) Undefined
     = Inr (Layer [(''undefined '' @ en_dash @ '' undefined'', Obj [(''sticky'', Bool True)])])"
proof -
  let ?ps = "[(''kabkot'', Str ''Kota A'')]"
  have h1: "map_of [(''properties'', Obj ?ps)] ''properties'' = Some (Obj ?ps)" by simp
  have h2: "map_of ?ps ''kabkot'' = map_option Str (Some ''Kota A'')" by simp
  have h3: "map_of ?ps ''cluster_label'' = map_option Str None" by simp
  have h4: "Some ''Kota A'' = None \<or> (None :: string option) = None" by simp
  have g1: "map_of [(''properties'', Obj [])] ''properties'' = Some (Obj [])" by simp
  have g2: "map_of [] ''kabkot'' = map_option Str None" by simp
  have g3: "map_of [] ''cluster_label'' = map_option Str None" by simp
  have g4: "(None :: string option) = None \<or> (None :: string option) = None" by simp
  show ?thesis
    using function2_missing_property_undefined [OF h1 h2 h3 h4, of "[]" Undefined]
      function2_missing_property_undefined [OF g1 g2 g3 g4, of "[]" Undefined]
    by simp
qed

subsection \<open>No failure under the input contract\<close>

text \<open>
  C8, amended. When the feature is an object whose \<^verbatim>\<open>properties\<close> member is an object, and
  each of \<^verbatim>\<open>kabkot\<close>, \<^verbatim>\<open>cluster_label\<close> and \<^verbatim>\<open>cluster\<close>, where it is present, holds a
  value that converts to a string (every string, number, boolean and \<^verbatim>\<open>null\<close> does), none
  of the six callbacks throws, whichever of the properties are present or missing and whatever
  the other properties hold: each returns its result.
\<close>

theorem callbacks_do_not_throw:
  assumes "map_of fs ''properties'' = Some (Obj ps)"
    and "\<forall>v. map_of ps ''kabkot'' = Some v \<longrightarrow> converts v"
    and "\<forall>v. map_of ps ''cluster_label'' = Some v \<longrightarrow> converts v"
    and "\<forall>v. map_of ps ''cluster'' = Some v \<longrightarrow> converts v"
  shows "(\<exists>st. function0_flat (Obj fs) context = Inr st)
       \<and> (\<exists>st. function1_flat (Obj fs) context = Inr st)
       \<and> (\<exists>l. function2_flat (Obj fs) layer context = Inr l)
       \<and> (\<exists>st. function0_cluster (Obj fs) context = Inr st)
       \<and> (\<exists>st. function1_cluster (Obj fs) context = Inr st)
       \<and> (\<exists>l. function2_cluster (Obj fs) layer context = Inr l)"
proof -
  let ?read = "\<lambda>k. case map_of ps k of None \<Rightarrow> Undefined | Some v \<Rightarrow> v"
  from assms(2) have "\<exists>s. ToString (?read ''kabkot'') = Inr s" by (rule read_converts)
  then obtain a where a: "ToString (?read ''kabkot'') = Inr a" ..
  from assms(3) have "\<exists>s. ToString (?read ''cluster_label'') = Inr s" by (rule read_converts)
  then obtain b where b: "ToString (?read ''cluster_label'') = Inr b" ..
  from assms(4) have "\<exists>s. ToString (?read ''cluster'') = Inr s" by (rule read_converts)
  then obtain c where c: "ToString (?read ''cluster'') = Inr c" ..
  have f0: "\<exists>st. function0_flat (Obj fs) context = Inr st"
    using assms(1) by (simp add: function0_flat_def)
  have f1: "\<exists>st. function1_flat (Obj fs) context = Inr st"
    by (simp add: function1_flat_def)
  have f2: "\<exists>l. function2_flat (Obj fs) layer context = Inr l"
    using assms(1) a b by (simp add: function2_flat_def plus_string_def)
  have g0: "\<exists>st. function0_cluster (Obj fs) context = Inr st"
    using assms(1) c by (simp add: function0_cluster_def get_computed_def)
  have g1: "\<exists>st. function1_cluster (Obj fs) context = Inr st"
    by (simp add: function1_cluster_def)
  have g2: "\<exists>l. function2_cluster (Obj fs) layer context = Inr l"
    using assms(1) a b by (simp add: function2_cluster_def plus_string_def)
  from f0 f1 f2 g0 g1 g2 show ?thesis by (intro conjI)
qed

text \<open>A feature with a string, an integer, a missing \<^verbatim>\<open>cluster_label\<close>, a
  \<^verbatim>\<open>fillColor\<close> that would not convert and an array that no callback reads.\<close>

theorem callbacks_do_not_throw_witness:
  "(\<exists>st. function0_flat
          (Obj [(''properties'',
             Obj [(''kabkot'', Str ''Kota A''), (''cluster'', Num (Dec 1 0)),
                  (''fillColor'', Obj [(''toString'', Str ''x'')]),
                  (''tags'', Arr [Obj [(''toString'', Null)]])])])
          Undefined = Inr st)
   \<and> (\<exists>l. function2_flat
          (Obj [(''properties'',
             Obj [(''kabkot'', Str ''Kota A''), (''cluster'', Num (Dec 1 0)),
                  (''fillColor'', Obj [(''toString'', Str ''x'')]),
                  (''tags'', Arr [Obj [(''toString'', Null)]])])])
          (Layer []) Undefined = Inr l)
   \<and> (\<exists>st. function0_cluster
          (Obj [(''properties'',
             Obj [(''kabkot'', Str ''Kota A''), (''cluster'', Num (Dec 1 0)),
                  (''fillColor'', Obj [(''toString'', Str ''x'')]),
                  (''tags'', Arr [Obj [(''toString'', Null)]])])])
          Undefined = Inr st)
   \<and> (\<exists>l. function2_cluster
          (Obj [(''properties'',
             Obj [(''kabkot'', Str ''Kota A''), (''cluster'', Num (Dec 1 0)),
                  (''fillColor'', Obj [(''toString'', Str ''x'')]),
                  (''tags'', Arr [Obj [(''toString'', Null)]])])])
          (Layer []) Undefined = Inr l)"
proof -
  let ?ps = "[(''kabkot'', Str ''Kota A''), (''cluster'', Num (Dec 1 0)),
              (''fillColor'', Obj [(''toString'', Str ''x'')]),
              (''tags'', Arr [Obj [(''toString'', Null)]])]"
  have h1: "map_of [(''properties'', Obj ?ps)] ''properties'' = Some (Obj ?ps)" by simp
  have h2: "\<forall>v. map_of ?ps ''kabkot'' = Some v \<longrightarrow> converts v"
    by (simp add: converts_def)
  have h3: "\<forall>v. map_of ?ps ''cluster_label'' = Some v \<longrightarrow> converts v"
    by simp
  have h4: "\<forall>v. map_of ?ps ''cluster'' = Some v \<longrightarrow> converts v"
    by (simp add: converts_def)
  show ?thesis
    using callbacks_do_not_throw [OF h1 h2 h3 h4, of Undefined "Layer []"] by blast
qed

text \<open>
  C8 as stated fails: the feature below is an object with a \<^verbatim>\<open>properties\<close> object and the
  layer has \<^verbatim>\<open>bindTooltip\<close>, yet \<^verbatim>\<open>function2\<close> throws, in either variant, because the
  object under \<^verbatim>\<open>kabkot\<close> hides the inherited \<^verbatim>\<open>toString\<close> by a string and so cannot be
  concatenated; in the same way \<^verbatim>\<open>function0\<close> of the cluster-colour variant throws when
  such an object stands under \<^verbatim>\<open>cluster\<close> and is to become a property key.
\<close>

theorem callbacks_throw_on_unconvertible_counterexample:
  "function2_flat
     (Obj [(''properties'',
        Obj [(''kabkot'', Obj [(''toString'', Str ''x'')]), (''cluster_label'', Str ''Cluster 1'')])])
     (Layer []) Undefined = Inl TypeError
   \<and> function2_cluster
     (Obj [(''properties'',
        Obj [(''kabkot'', Obj [(''toString'', Str ''x'')]), (''cluster_label'', Str ''Cluster 1'')])])
     (Layer []) Undefined = Inl TypeError
   \<and> function0_cluster
     (Obj [(''properties'', Obj [(''cluster'', Obj [(''toString'', Str ''x'')])])])
     Undefined = Inl TypeError"
  by (simp add: function2_flat_def function2_cluster_def function0_cluster_def plus_string_def
      get_computed_def)

text \<open>
  The callbacks that read the properties also throw when \<^verbatim>\<open>properties\<close> is \<^verbatim>\<open>null\<close> or
  missing, which the data model excludes.
\<close>

lemma outside_the_contract:
  "function0_flat (Obj [(''properties'', Null)]) Undefined = Inl TypeError"
  "function0_cluster (Obj []) Undefined = Inl TypeError"
  "function2_flat (Obj []) (Layer []) Undefined = Inl TypeError"
  by (simp_all add: function0_flat_def function0_cluster_def function2_flat_def)

subsection \<open>A falsy fill colour\<close>

text \<open>
  C9. In the flat variant a \<^verbatim>\<open>fillColor\<close> that is present but falsy, such as the empty
  string, is treated as a missing one: \<^verbatim>\<open>function0\<close> returns the style with the fallback
  \<^verbatim>\<open>#9ca3af\<close>.
\<close>

theorem function0_flat_falsy_fillColor:
  assumes "map_of fs ''properties'' = Some (Obj ps)"
    and "map_of ps ''fillColor'' = Some v"
    and "\<not> truthy v"
  shows "function0_flat (Obj fs) context
           = Inr [(''color'', Val (Str ''#0f172a'')),
                  (''weight'', Val (Num (Dec 1 0))),
                  (''fillColor'', Val (Str ''#9ca3af'')),
                  (''fillOpacity'', Val (Num (Dec 8 (- 1))))]"
  using assms by (simp add: function0_flat_def lor_def)

theorem function0_flat_falsy_fillColor_witness:
  "\<not> truthy (Str [])
   \<and> function0_flat (Obj [(''properties'', Obj [(''fillColor'', Str [])])]) Undefined
       = Inr [(''color'', Val (Str ''#0f172a'')),
              (''weight'', Val (Num (Dec 1 0))),
              (''fillColor'', Val (Str ''#9ca3af'')),
              (''fillOpacity'', Val (Num (Dec 8 (- 1))))]"
proof -
  let ?ps = "[(''fillColor'', Str [])]"
  have h1: "map_of [(''properties'', Obj ?ps)] ''properties'' = Some (Obj ?ps)" by simp
  have h2: "map_of ?ps ''fillColor'' = Some (Str [])" by simp
  have h3: "\<not> truthy (Str [])" by simp
  show ?thesis
    using h3 function0_flat_falsy_fillColor [OF h1 h2 h3, of Undefined] by simp
qed

subsection \<open>The two tooltip callbacks agree\<close>

text \<open>
  C10. \<^verbatim>\<open>function2\<close> of the flat variant and \<^verbatim>\<open>function2\<close> of the cluster-colour
  variant do the same on every feature, layer and context: the same call of
  \<^verbatim>\<open>bindTooltip\<close> with the same text and options, or the same failure.
\<close>

theorem function2_variants_equal:
  "function2_flat feature layer context = function2_cluster feature layer context"
  by (simp add: function2_flat_def function2_cluster_def)

theorem function2_variants_equal_witness:
  "function2_flat (Obj [(''properties'', Obj [(''kabkot'', Str ''Kota A'')])]) (Layer []) Undefined
     = function2_cluster (Obj [(''properties'', Obj [(''kabkot'', Str ''Kota A'')])]) (Layer [])
         Undefined
   \<and> function2_flat Undefined (Layer []) Undefined = function2_cluster Undefined (Layer []) Undefined"
  using function2_variants_equal
    [of "Obj [(''properties'', Obj [(''kabkot'', Str ''Kota A'')])]" "Layer []" Undefined]
    function2_variants_equal [of Undefined "Layer []" Undefined]
  by simp

end
